theory Spec2Isabelle
  imports Main "HOL-Library.Sublist" "HOL-Library.List_Lexorder"
begin

section \<open>Python values used by hangman.py\<close>

text \<open>
  A Python \<^verbatim>\<open>str\<close> is a sequence of Unicode code points, and \<^verbatim>\<open>len\<close> counts code
  points.  A code point is a natural number here; strings are compared as Python compares
  them, lexicographically by code point.  Python's \<^verbatim>\<open>int\<close> is unbounded: \<open>int\<close>.
\<close>

type_synonym codepoint = nat
type_synonym pystr = "codepoint list"

definition ascii :: "string \<Rightarrow> pystr" where
  \<comment> \<open>a string literal of the source, all of whose characters are ASCII\<close>
  "ascii s = map of_char s"

text \<open>
  \<^verbatim>\<open>str.lower\<close>, \<^verbatim>\<open>str.isalpha\<close> and \<^verbatim>\<open>repr\<close> of a string are computed by the Python
  runtime from the Unicode character database, which is no part of the repository.  The
  model takes them as the fields of a runtime value \<open>rt\<close> that every operation receives, so
  every theorem below holds whatever the tables are.  \<^verbatim>\<open>str.lower\<close> is a function of the whole
  string (it may change the length, and the final sigma depends on its context).
\<close>

record pyrt =
  str_lower :: "pystr \<Rightarrow> pystr"
  chr_isalpha :: "codepoint \<Rightarrow> bool"
  str_repr :: "pystr \<Rightarrow> pystr"

definition isalpha :: "pyrt \<Rightarrow> pystr \<Rightarrow> bool" where
  \<comment> \<open>\<^verbatim>\<open>s.isalpha()\<close>: at least one character and all characters alphabetic\<close>
  "isalpha rt s = (s \<noteq> [] \<and> list_all (chr_isalpha rt) s)"

fun join :: "pystr \<Rightarrow> pystr list \<Rightarrow> pystr" where
  \<comment> \<open>\<^verbatim>\<open>sep.join(xs)\<close>\<close>
  "join sep [] = []"
| "join sep [x] = x"
| "join sep (x # y # ys) = x @ sep @ join sep (y # ys)"

fun digits :: "nat \<Rightarrow> pystr" where
  "digits n = (if n < 10 then [48 + n] else digits (n div 10) @ [48 + n mod 10])"

definition str_int :: "int \<Rightarrow> pystr" where
  \<comment> \<open>\<^verbatim>\<open>str(i)\<close> of an int, as an f-string formats it\<close>
  "str_int i = (if i < 0 then ascii ''-'' @ digits (nat (- i)) else digits (nat i))"

definition str_bool :: "bool \<Rightarrow> pystr" where
  "str_bool b = (if b then ascii ''True'' else ascii ''False'')"

definition str_list :: "pyrt \<Rightarrow> pystr list \<Rightarrow> pystr" where
  \<comment> \<open>\<^verbatim>\<open>str(xs)\<close> of a list of strings: the \<^verbatim>\<open>repr\<close> of each element, in brackets\<close>
  "str_list rt xs = ascii ''['' @ join (ascii '', '') (map (str_repr rt) xs) @ ascii '']''"

datatype error = ValueError string | RuntimeError string

definition DEFAULT_MAX_GUESSES :: int where
  "DEFAULT_MAX_GUESSES = 10"

definition DEFAULT_LANGUAGE_value :: pystr where
  \<comment> \<open>Modelled from the spec: the enum \<^verbatim>\<open>Language\<close> is declared in \<^verbatim>\<open>hangman_eval.datasets\<close>,
      which is not among the sources; the spec has "a fixed baseline language" as the default
      and the docstring of \<^verbatim>\<open>hangman\<close> names it: english.\<close>
  "DEFAULT_LANGUAGE_value = ascii ''english''"

section \<open>GameState\<close>

record GameState =
  word :: pystr
  guessed_letters :: "pystr list"
  remaining_guesses :: int
  game_over :: bool
  won :: bool

definition start :: "pyrt \<Rightarrow> pystr \<Rightarrow> int \<Rightarrow> GameState" where
  "start rt w max_guesses =
     \<lparr>word = str_lower rt w, guessed_letters = [], remaining_guesses = max_guesses,
      game_over = False, won = False\<rparr>"

definition current_state :: "GameState \<Rightarrow> pystr" where
  "current_state s =
     join (ascii '' '')
       (map (\<lambda>letter. if [letter] \<in> set (guessed_letters s) then [letter] else ascii ''_'')
          (word s))"

definition incorrect_guesses :: "GameState \<Rightarrow> pystr list" where
  \<comment> \<open>\<^verbatim>\<open>set(self.word)\<close> is the set of the one-character strings of the word\<close>
  "incorrect_guesses s =
     sorted_list_of_set (set (guessed_letters s) - set (map (\<lambda>c. [c]) (word s)))"

text \<open>
  \<^verbatim>\<open>guess\<close> mutates the object and returns it, or raises.  The model returns the exception
  raised, if any, and the state of the object after the call (which is the value returned
  when nothing is raised).  The steps are those of the source, in its order; \<^verbatim>\<open>letter in
  self.word\<close> is Python's substring test.
\<close>

definition guess :: "pyrt \<Rightarrow> GameState \<Rightarrow> pystr \<Rightarrow> error option \<times> GameState" where
  "guess rt s letter0 =
     (if game_over s then (None, s)
      else
        let letter = str_lower rt letter0 in
        if length letter \<noteq> 1 \<or> \<not> isalpha rt letter
        then (Some (ValueError ''Guess must be a single letter''), s)
        else if letter \<in> set (guessed_letters s) then (None, s)
        else
          let s1 = s\<lparr>guessed_letters := guessed_letters s @ [letter]\<rparr>;
              s2 = (if \<not> sublist letter (word s1)
                    then s1\<lparr>remaining_guesses := remaining_guesses s1 - 1\<rparr> else s1);
              s3 = (if list_all (\<lambda>c. [c] \<in> set (guessed_letters s2)) (word s2)
                    then s2\<lparr>game_over := True, won := True\<rparr> else s2);
              s4 = (if remaining_guesses s3 \<le> 0 then s3\<lparr>game_over := True\<rparr> else s3)
          in (None, s4))"

section \<open>The episode: metadata, store, task state\<close>

text \<open>
  The two dictionaries of the source (\<^verbatim>\<open>state.metadata\<close> and the one stored under
  \<^verbatim>\<open>hangman:metadata\<close>) are read with \<^verbatim>\<open>get(key, default)\<close> on five keys: a record with one
  optional field for each key, \<open>None\<close> for a key that is absent.
\<close>

record metadata =
  md_word :: "pystr option"
  md_max_guesses :: "int option"
  md_language :: "pystr option"
  md_difficulty :: "int option"
  md_allow_word_guesses :: "bool option"

definition empty_metadata :: metadata where
  "empty_metadata =
     \<lparr>md_word = None, md_max_guesses = None, md_language = None, md_difficulty = None,
      md_allow_word_guesses = None\<rparr>"

definition get :: "'a option \<Rightarrow> 'a \<Rightarrow> 'a" where
  \<comment> \<open>\<^verbatim>\<open>d.get(key, default)\<close>, applied to the field of the key\<close>
  "get v d = (case v of None \<Rightarrow> d | Some x \<Rightarrow> x)"

record Store =
  hangman_game_state :: "GameState option"
  hangman_metadata :: "metadata option"

definition store_get_metadata :: "Store \<Rightarrow> metadata \<times> Store" where
  \<comment> \<open>\<^verbatim>\<open>store.get("hangman:metadata", {})\<close>.  \<^verbatim>\<open>Store.get(key, default)\<close> of the inspect_ai
      library puts a default that is not \<^verbatim>\<open>None\<close> under a key that is missing and returns
      the value under the key: the value read, and the store after the read.  The read of
      \<^verbatim>\<open>hangman:game_state\<close> has the default \<^verbatim>\<open>None\<close> and writes nothing.\<close>
  "store_get_metadata st =
     (case hangman_metadata st of
        None \<Rightarrow> (empty_metadata, st\<lparr>hangman_metadata := Some empty_metadata\<rparr>)
      | Some md \<Rightarrow> (md, st))"

record TaskState =
  task_metadata :: "metadata option"
  store :: Store
  user_prompt_text :: pystr
  output_completion :: pystr

section \<open>hangman_guess\<close>

record response =
  r_current_state :: pystr
  r_remaining_guesses :: int
  r_incorrect_guesses :: "pystr list"
  r_game_over :: bool
  r_won :: bool
  r_language :: pystr

definition snapshot :: "GameState \<Rightarrow> metadata \<Rightarrow> response" where
  "snapshot g md =
     \<lparr>r_current_state = current_state g, r_remaining_guesses = remaining_guesses g,
      r_incorrect_guesses = incorrect_guesses g, r_game_over = game_over g, r_won = won g,
      r_language = get (md_language md) DEFAULT_LANGUAGE_value\<rparr>"

definition execute :: "pyrt \<Rightarrow> Store \<Rightarrow> pystr \<Rightarrow> (error + response) \<times> Store" where
  \<comment> \<open>the tool call: its result or the exception raised, and the store after the call\<close>
  "execute rt st letter =
     (let (metadata, st1) = store_get_metadata st in
      case hangman_game_state st1 of
        None \<Rightarrow>
          (Inl (RuntimeError
             ''No game in progress. The game must be started by the evaluation setup.''), st1)
      | Some game_state \<Rightarrow>
          if \<not> game_over game_state then
            (case guess rt game_state letter of
               (Some e, g) \<Rightarrow> (Inl e, st1\<lparr>hangman_game_state := Some g\<rparr>)
             | (None, g) \<Rightarrow> (Inr (snapshot g metadata), st1\<lparr>hangman_game_state := Some g\<rparr>))
          else (Inr (snapshot game_state metadata), st1))"

section \<open>game_initialiser\<close>

definition solve :: "pyrt \<Rightarrow> TaskState \<Rightarrow> error option \<times> TaskState" where
  \<comment> \<open>the exception raised, if any, and the task state after the call; \<^verbatim>\<open>not word\<close> holds
      of an absent word and of the empty string\<close>
  "solve rt state =
     (let metadata = get (task_metadata state) empty_metadata in
      case md_word metadata of
        None \<Rightarrow> (Some (RuntimeError ''No word provided in metadata''), state)
      | Some w \<Rightarrow>
          if w = [] then (Some (RuntimeError ''No word provided in metadata''), state)
          else
            let max_guesses = get (md_max_guesses metadata) DEFAULT_MAX_GUESSES;
                language = get (md_language metadata) DEFAULT_LANGUAGE_value;
                difficulty = get (md_difficulty metadata) 3;
                allow_word_guesses = get (md_allow_word_guesses metadata) False;
                hangman_game = start rt w max_guesses
            in (None,
                state\<lparr>store :=
                        \<lparr>hangman_game_state = Some hangman_game,
                         hangman_metadata =
                           Some \<lparr>md_word = None, md_max_guesses = None,
                                 md_language = Some language, md_difficulty = Some difficulty,
                                 md_allow_word_guesses = Some allow_word_guesses\<rparr>\<rparr>,
                      user_prompt_text :=
                        ascii ''Let's play hangman in '' @ language @ ascii ''! You have ''
                        @ str_int max_guesses @ ascii '' guesses.'' @ [10]
                        @ ascii ''The word is ''
                        @ join (ascii '' '') (replicate (length w) (ascii ''_''))
                        @ ascii ''.'' @ [10]\<rparr>))"

section \<open>game_scorer\<close>

datatype outcome = CORRECT | INCORRECT

record Score =
  score_value :: outcome
  answer :: pystr
  explanation :: pystr

definition score :: "pyrt \<Rightarrow> TaskState \<Rightarrow> error + Score" where
  \<comment> \<open>the Score returned or the exception raised; the metadata read is the first component
      of \<open>store_get_metadata\<close>, and the store is not read again after the scorer\<close>
  "score rt state =
     (let metadata = get (hangman_metadata (store state)) empty_metadata;
          language = get (md_language metadata) DEFAULT_LANGUAGE_value;
          difficulty = get (md_difficulty metadata) 3
      in
      case hangman_game_state (store state) of
        None \<Rightarrow> Inl (RuntimeError ''No game state found in store'')
      | Some game_state \<Rightarrow>
          let allow_word_guesses = get (md_allow_word_guesses metadata) False in
          if allow_word_guesses \<and> \<not> game_over game_state then
            let guessed_word = output_completion state in
            Inr \<lparr>score_value = (if guessed_word = word game_state then CORRECT else INCORRECT),
                 answer = guessed_word,
                 explanation =
                   ascii ''Early guess. Word: '' @ word game_state
                   @ ascii ''. Language: '' @ language @ ascii ''. ''
                   @ ascii ''Difficulty: '' @ str_int difficulty @ ascii ''/5. ''
                   @ ascii ''Guessed word: '' @ guessed_word @ ascii ''. ''
                   @ ascii ''Guessed letters: '' @ str_list rt (guessed_letters game_state)
                   @ ascii ''. ''
                   @ ascii ''Final word state: '' @ current_state game_state @ ascii ''. ''
                   @ ascii ''Remaining guesses: '' @ str_int (remaining_guesses game_state)
                   @ ascii ''. ''\<rparr>
          else if \<not> game_over game_state then
            Inr \<lparr>score_value = INCORRECT, answer = current_state game_state,
                 explanation = ascii ''The game did not complete.''\<rparr>
          else
            Inr \<lparr>score_value = (if won game_state then CORRECT else INCORRECT),
                 answer = current_state game_state,
                 explanation =
                   ascii ''Game ended. Word: '' @ word game_state
                   @ ascii ''. Language: '' @ language @ ascii ''. ''
                   @ ascii ''Difficulty: '' @ str_int difficulty @ ascii ''/5.''
                   @ ascii ''Won: '' @ str_bool (won game_state) @ ascii ''. ''
                   @ ascii ''Guessed letters: '' @ str_list rt (guessed_letters game_state)
                   @ ascii ''. ''
                   @ ascii ''Final word state: '' @ current_state game_state @ ascii ''. ''
                   @ ascii ''Remaining guesses: '' @ str_int (remaining_guesses game_state)
                   @ ascii ''. ''\<rparr>)"

section \<open>A runtime to evaluate with\<close>

text \<open>
  Python's tables restricted to ASCII: on strings of ASCII letters \<open>ascii_rt\<close> computes
  what CPython computes.  It is used to evaluate the operations on concrete games.
\<close>

definition ascii_lower :: "codepoint \<Rightarrow> codepoint" where
  "ascii_lower c = (if 65 \<le> c \<and> c \<le> 90 then c + 32 else c)"

definition ascii_rt :: pyrt where
  "ascii_rt =
     \<lparr>str_lower = map ascii_lower,
      chr_isalpha = (\<lambda>c. (65 \<le> c \<and> c \<le> 90) \<or> (97 \<le> c \<and> c \<le> 122)),
      str_repr = (\<lambda>s. [39] @ s @ [39])\<rparr>"

section \<open>Notions the properties are stated with\<close>

definition play :: "pyrt \<Rightarrow> GameState \<Rightarrow> pystr list \<Rightarrow> GameState" where
  \<comment> \<open>a sequence of calls of \<^verbatim>\<open>guess\<close> on one object; a call that raises leaves the object
      as it was and the sequence goes on, as the agent loop does\<close>
  "play rt s letters = foldl (\<lambda>g letter. snd (guess rt g letter)) s letters"

definition all_guessed :: "GameState \<Rightarrow> bool" where
  \<comment> \<open>every letter of the word appears in \<^verbatim>\<open>guessed_letters\<close>\<close>
  "all_guessed s = list_all (\<lambda>c. [c] \<in> set (guessed_letters s)) (word s)"

definition valid_letter :: "pyrt \<Rightarrow> pystr \<Rightarrow> bool" where
  \<comment> \<open>the lowercased argument is exactly one alphabetic character\<close>
  "valid_letter rt letter0 =
     (length (str_lower rt letter0) = 1 \<and> isalpha rt (str_lower rt letter0))"

fun positions :: "pystr \<Rightarrow> pystr" where
  \<comment> \<open>the characters of a display without the separator after each of them\<close>
  "positions [] = []"
| "positions [c] = [c]"
| "positions (c # sep # cs) = c # positions cs"

definition includes_audit_trail :: "pyrt \<Rightarrow> GameState \<Rightarrow> metadata \<Rightarrow> pystr \<Rightarrow> bool" where
  \<comment> \<open>the text \<open>e\<close> contains the word, the language, the difficulty, the guessed letters,
      the display and the remaining guesses, each as the source formats it\<close>
  "includes_audit_trail rt g md e =
     (sublist (word g) e
      \<and> sublist (get (md_language md) DEFAULT_LANGUAGE_value) e
      \<and> sublist (str_int (get (md_difficulty md) 3)) e
      \<and> sublist (str_list rt (guessed_letters g)) e
      \<and> sublist (current_state g) e
      \<and> sublist (str_int (remaining_guesses g)) e)"

subsection \<open>Concrete games\<close>

definition cat_game :: GameState where
  "cat_game = start ascii_rt (ascii ''Cat'') 3"

definition dog_lost :: GameState where
  "dog_lost = play ascii_rt (start ascii_rt (ascii ''dog'') 1) [ascii ''z'']"

definition cat_won :: GameState where
  "cat_won = play ascii_rt cat_game [ascii ''a'', ascii ''t'', ascii ''x'', ascii ''c'']"

definition hand_built :: GameState where
  \<comment> \<open>\<^verbatim>\<open>GameState("a", ["a"], 3, False, False)\<close>: a value of the dataclass that is not over
      although its only letter is guessed\<close>
  "hand_built =
     \<lparr>word = ascii ''a'', guessed_letters = [ascii ''a''], remaining_guesses = 3,
      game_over = False, won = False\<rparr>"

definition store_of :: "GameState \<Rightarrow> bool \<Rightarrow> Store" where
  \<comment> \<open>the store as \<^verbatim>\<open>game_initialiser\<close> leaves it, for an english word of difficulty 2\<close>
  "store_of g allow =
     \<lparr>hangman_game_state = Some g,
      hangman_metadata =
        Some \<lparr>md_word = None, md_max_guesses = None, md_language = Some (ascii ''english''),
              md_difficulty = Some 2, md_allow_word_guesses = Some allow\<rparr>\<rparr>"

definition episode :: "GameState \<Rightarrow> bool \<Rightarrow> pystr \<Rightarrow> TaskState" where
  "episode g allow completion =
     \<lparr>task_metadata = None, store = store_of g allow, user_prompt_text = [],
      output_completion = completion\<rparr>"

definition wordless_task :: TaskState where
  \<comment> \<open>a task whose metadata has the empty string as its word, before the setup\<close>
  "wordless_task =
     \<lparr>task_metadata = Some (empty_metadata\<lparr>md_word := Some [], md_max_guesses := Some 5\<rparr>),
      store = \<lparr>hangman_game_state = None, hangman_metadata = None\<rparr>,
      user_prompt_text = ascii ''Play.'', output_completion = []\<rparr>"

section \<open>Auxiliary facts\<close>

lemmas eval_simps = play_def start_def guess_def ascii_rt_def ascii_def ascii_lower_def
  isalpha_def valid_letter_def all_guessed_def Let_def sublist_code

lemma cat_game_eq:
  "cat_game = \<lparr>word = ascii ''cat'', guessed_letters = [], remaining_guesses = 3,
                game_over = False, won = False\<rparr>"
  by (simp add: cat_game_def eval_simps)

lemma dog_lost_eq:
  "dog_lost = \<lparr>word = ascii ''dog'', guessed_letters = [ascii ''z''], remaining_guesses = 0,
                game_over = True, won = False\<rparr>"
  by (simp add: dog_lost_def eval_simps)

lemma cat_won_eq:
  "cat_won = \<lparr>word = ascii ''cat'',
               guessed_letters = [ascii ''a'', ascii ''t'', ascii ''x'', ascii ''c''],
               remaining_guesses = 2, game_over = True, won = True\<rparr>"
  by (simp add: cat_won_def cat_game_eq eval_simps)

lemma ascii_space: "ascii '' '' = [32]"
  by (simp add: ascii_def)

lemma ascii_underscore: "ascii ''_'' = [95]"
  by (simp add: ascii_def)

lemma positions_join: "positions (join [sp] (map (\<lambda>c. [f c]) w)) = map f w"
  by (induction w rule: induct_list012) simp_all

lemma length_join:
  "length (join [sp] (map (\<lambda>c. [f c]) w)) = (if w = [] then 0 else 2 * length w - 1)"
  by (induction w rule: induct_list012) simp_all

lemma current_state_tokens:
  "current_state s =
     join [32] (map (\<lambda>c. [if [c] \<in> set (guessed_letters s) then c else 95]) (word s))"
proof -
  have "(\<lambda>letter. if [letter] \<in> set (guessed_letters s) then [letter] else ascii ''_'')
        = (\<lambda>c. [if [c] \<in> set (guessed_letters s) then c else 95])"
    by (auto simp add: ascii_underscore)
  then show ?thesis by (simp add: current_state_def ascii_space)
qed

lemma current_state_frame:
  "current_state (s\<lparr>guessed_letters :=
      filter (\<lambda>g. g \<in> set (map (\<lambda>c. [c]) (word s))) (guessed_letters s)\<rparr>) = current_state s"
  by (simp add: current_state_def image_iff cong: map_cong)

lemma guess_remaining:
  "remaining_guesses (snd (guess rt s letter)) =
     (if \<not> game_over s \<and> valid_letter rt letter
         \<and> str_lower rt letter \<notin> set (guessed_letters s)
         \<and> \<not> sublist (str_lower rt letter) (word s)
      then remaining_guesses s - 1 else remaining_guesses s)"
  by (simp add: guess_def valid_letter_def Let_def)

lemma play_remaining_le: "remaining_guesses (play rt s letters) \<le> remaining_guesses s"
proof (induction letters arbitrary: s)
  case Nil
  show ?case by (simp add: play_def)
next
  case (Cons l ls)
  have "remaining_guesses (play rt (snd (guess rt s l)) ls)
          \<le> remaining_guesses (snd (guess rt s l))"
    by (rule Cons.IH)
  also have "\<dots> \<le> remaining_guesses s"
    by (simp add: guess_remaining)
  finally show ?case by (simp add: play_def)
qed

lemma store_get_metadata_value:
  "fst (store_get_metadata st) = get (hangman_metadata st) empty_metadata"
  by (simp add: store_get_metadata_def get_def split: option.splits)

lemma store_get_metadata_game:
  "hangman_game_state (snd (store_get_metadata st)) = hangman_game_state st"
  by (simp add: store_get_metadata_def split: option.splits)

lemma store_get_metadata_store:
  "hangman_metadata (snd (store_get_metadata st)) =
     Some (get (hangman_metadata st) empty_metadata)"
  by (simp add: store_get_metadata_def get_def split: option.splits)

lemma sublist_skip: "sublist xs ys \<Longrightarrow> sublist xs (zs @ ys)"
  by (auto simp add: sublist_def) (metis append.assoc)

section \<open>The scorer\<close>

text \<open>
  C1.  When the stored metadata allows word guesses and the game is not over, the scorer
  returns a score (it does not raise) whose value is CORRECT exactly when the agent's final
  submission \<^verbatim>\<open>state.output.completion\<close> equals the stored word as a string, whatever
  the guessed letters are; the answer of the score is that submission.
\<close>

theorem score_early_guess:
  assumes "hangman_game_state (store st) = Some g"
    and "md_allow_word_guesses (get (hangman_metadata (store st)) empty_metadata) = Some True"
    and "\<not> game_over g"
  shows "\<exists>sc. score rt st = Inr sc
           \<and> (score_value sc = CORRECT \<longleftrightarrow> output_completion st = word g)
           \<and> answer sc = output_completion st"
  using assms by (simp add: score_def Let_def get_def)

theorem score_early_guess_witness:
  "hangman_game_state (store (episode cat_game True (ascii ''cat''))) = Some cat_game
   \<and> \<not> game_over cat_game
   \<and> score ascii_rt (episode cat_game True (ascii ''cat'')) =
       Inr \<lparr>score_value = CORRECT, answer = ascii ''cat'',
            explanation = ascii (''Early guess. Word: cat. Language: english. ''
              @ ''Difficulty: 2/5. Guessed word: cat. Guessed letters: []. ''
              @ ''Final word state: _ _ _. Remaining guesses: 3. '')\<rparr>
   \<and> score_value (projr (score ascii_rt (episode cat_game True (ascii ''Cat'')))) = INCORRECT"
  using score_early_guess [of "episode cat_game True (ascii ''cat'')" cat_game ascii_rt]
  by (simp add: episode_def store_of_def cat_game_eq score_def get_def Let_def current_state_def
      str_list_def str_int_def ascii_def ascii_rt_def)

text \<open>
  C2, as the source has it.  On the early-guess branch and on the branch of a game that is
  over, the explanation contains the word, the language, the difficulty, the guessed
  letters, the display and the remaining guesses.  On the branch of a game that never
  reached \<^verbatim>\<open>game_over\<close> (word guesses not allowed) the explanation is the fixed text
  "The game did not complete." and nothing else.
\<close>

theorem score_explanation:
  assumes "hangman_game_state (store st) = Some g"
    and "md = get (hangman_metadata (store st)) empty_metadata"
  shows "(game_over g \<or> get (md_allow_word_guesses md) False
            \<longrightarrow> (\<exists>sc. score rt st = Inr sc \<and> includes_audit_trail rt g md (explanation sc)))
       \<and> (\<not> game_over g \<and> \<not> get (md_allow_word_guesses md) False
            \<longrightarrow> score rt st = Inr \<lparr>score_value = INCORRECT, answer = current_state g,
                   explanation = ascii ''The game did not complete.''\<rparr>)"
  using assms(1) unfolding assms(2) includes_audit_trail_def score_def Let_def
  by (auto intro!: sublist_append_rightI sublist_skip)

theorem score_explanation_witness:
  "hangman_game_state (store (episode cat_won False (ascii ''GG''))) = Some cat_won
   \<and> game_over cat_won
   \<and> score ascii_rt (episode cat_won False (ascii ''GG'')) =
       Inr \<lparr>score_value = CORRECT, answer = ascii ''c a t'',
            explanation = ascii (''Game ended. Word: cat. Language: english. ''
              @ ''Difficulty: 2/5.Won: True. Guessed letters: ['a', 't', 'x', 'c']. ''
              @ ''Final word state: c a t. Remaining guesses: 2. '')\<rparr>"
  using score_explanation [of "episode cat_won False (ascii ''GG'')" cat_won
      "get (hangman_metadata (store (episode cat_won False (ascii ''GG'')))) empty_metadata"
      ascii_rt]
  by (simp add: episode_def store_of_def cat_won_eq score_def get_def Let_def current_state_def
      str_list_def str_int_def str_bool_def ascii_def ascii_rt_def)

text \<open>
  C2, as the claim has it, fails on the branch of a game that did not complete: for the
  word "cat" with nothing guessed and word guesses not allowed, the explanation is
  "The game did not complete.", which does not contain the word.
\<close>

theorem score_explanation_counterexample:
  "score ascii_rt (episode cat_game False (ascii ''GG'')) =
     Inr \<lparr>score_value = INCORRECT, answer = ascii ''_ _ _'',
          explanation = ascii ''The game did not complete.''\<rparr>
   \<and> \<not> sublist (word cat_game) (ascii ''The game did not complete.'')
   \<and> \<not> includes_audit_trail ascii_rt cat_game
         (get (hangman_metadata (store (episode cat_game False (ascii ''GG'')))) empty_metadata)
         (ascii ''The game did not complete.'')"
  by (simp add: episode_def store_of_def cat_game_eq score_def get_def Let_def current_state_def
      includes_audit_trail_def ascii_def sublist_code)

section \<open>The engine\<close>

text \<open>
  C3, as the source has it.  Take any game that is not over and a guess whose lowercased
  letter is one alphabetic character and is not yet in \<^verbatim>\<open>guessed_letters\<close>.  If after the
  guess every letter of the word is in \<^verbatim>\<open>guessed_letters\<close>, the game is won and over,
  also when \<^verbatim>\<open>remaining_guesses\<close> is 0 or less at that point: the loss check that follows the win
  check sets \<^verbatim>\<open>game_over\<close> only and leaves \<^verbatim>\<open>won\<close> as it is.
\<close>

theorem win_check_precedes_loss_check:
  assumes "\<not> game_over s"
    and "valid_letter rt letter"
    and "str_lower rt letter \<notin> set (guessed_letters s)"
    and "all_guessed (snd (guess rt s letter))"
  shows "won (snd (guess rt s letter)) \<and> game_over (snd (guess rt s letter))"
  using assms
  by (auto simp add: guess_def Let_def all_guessed_def valid_letter_def split: if_splits)

theorem win_check_precedes_loss_check_witness:
  "\<not> game_over (start ascii_rt (ascii ''a'') 0)
   \<and> valid_letter ascii_rt (ascii ''A'')
   \<and> str_lower ascii_rt (ascii ''A'') \<notin> set (guessed_letters (start ascii_rt (ascii ''a'') 0))
   \<and> all_guessed (snd (guess ascii_rt (start ascii_rt (ascii ''a'') 0) (ascii ''A'')))
   \<and> remaining_guesses (snd (guess ascii_rt (start ascii_rt (ascii ''a'') 0) (ascii ''A''))) \<le> 0
   \<and> won (snd (guess ascii_rt (start ascii_rt (ascii ''a'') 0) (ascii ''A'')))
   \<and> game_over (snd (guess ascii_rt (start ascii_rt (ascii ''a'') 0) (ascii ''A'')))"
  using win_check_precedes_loss_check
    [of "start ascii_rt (ascii ''a'') 0" ascii_rt "ascii ''A''"]
  by (simp add: eval_simps)

text \<open>
  C3, as the claim has it, fails for a letter that is already guessed: on the game
  \<^verbatim>\<open>GameState("a", ["a"], 3, False, False)\<close> the guess "a" returns before the win check, so
  every letter of the word is guessed after it and the game is neither won nor over.
\<close>

theorem win_check_precedes_loss_check_counterexample:
  "\<not> game_over hand_built
   \<and> valid_letter ascii_rt (ascii ''a'')
   \<and> all_guessed (snd (guess ascii_rt hand_built (ascii ''a'')))
   \<and> \<not> won (snd (guess ascii_rt hand_built (ascii ''a'')))
   \<and> \<not> game_over (snd (guess ascii_rt hand_built (ascii ''a'')))"
  by (simp add: hand_built_def eval_simps)

text \<open>
  C4.  On a game that is over, \<^verbatim>\<open>guess\<close> with any argument raises nothing, leaves the
  whole state (word, guessed letters, remaining guesses, game_over, won) as it is and
  returns it.  The tool does not call \<^verbatim>\<open>guess\<close>: it returns the snapshot of the current
  state, and the game in the store after the call is the game as it was.
\<close>

theorem guess_on_finished_game_is_noop:
  assumes "game_over s" and "hangman_game_state st = Some s"
  shows "guess rt s letter = (None, s)
         \<and> fst (execute rt st letter) =
             Inr (snapshot s (get (hangman_metadata st) empty_metadata))
         \<and> hangman_game_state (snd (execute rt st letter)) = Some s"
proof (intro conjI)
  show "guess rt s letter = (None, s)"
    using assms(1) by (simp add: guess_def)
next
  obtain md st1 where g: "store_get_metadata st = (md, st1)"
    by (cases "store_get_metadata st")
  have md: "md = get (hangman_metadata st) empty_metadata"
    using store_get_metadata_value [of st] g by simp
  have st1: "hangman_game_state st1 = Some s"
    using store_get_metadata_game [of st] g assms(2) by simp
  have "execute rt st letter = (Inr (snapshot s md), st1)"
    using assms(1) st1 by (simp add: execute_def g)
  then show "fst (execute rt st letter) =
               Inr (snapshot s (get (hangman_metadata st) empty_metadata))"
    and "hangman_game_state (snd (execute rt st letter)) = Some s"
    using md st1 by simp_all
qed

theorem guess_on_finished_game_is_noop_witness:
  "game_over dog_lost \<and> guess ascii_rt dog_lost (ascii ''d'') = (None, dog_lost)
   \<and> execute ascii_rt \<lparr>hangman_game_state = Some dog_lost, hangman_metadata = None\<rparr> (ascii ''d'') =
       (Inr \<lparr>r_current_state = ascii ''_ _ _'', r_remaining_guesses = 0,
             r_incorrect_guesses = [ascii ''z''], r_game_over = True, r_won = False,
             r_language = ascii ''english''\<rparr>,
        \<lparr>hangman_game_state = Some dog_lost, hangman_metadata = Some empty_metadata\<rparr>)"
  using guess_on_finished_game_is_noop
    [of dog_lost "\<lparr>hangman_game_state = Some dog_lost, hangman_metadata = None\<rparr>" ascii_rt
      "ascii ''d''"]
  by (simp add: dog_lost_eq execute_def store_get_metadata_def snapshot_def get_def
      empty_metadata_def current_state_def incorrect_guesses_def DEFAULT_LANGUAGE_value_def
      guess_def ascii_def)

text \<open>
  C5.  For a letter whose lowercased form is one alphabetic character, a second call of
  \<^verbatim>\<open>guess\<close> with it gives what the first call gave: no exception and the same state.  A
  letter whose lowercased form is already in \<^verbatim>\<open>guessed_letters\<close> changes nothing.
\<close>

theorem guess_idempotent:
  assumes "valid_letter rt letter"
  shows "guess rt (snd (guess rt s letter)) letter = guess rt s letter
         \<and> (str_lower rt letter \<in> set (guessed_letters s) \<longrightarrow> guess rt s letter = (None, s))"
  using assms by (simp add: guess_def Let_def valid_letter_def)

theorem guess_idempotent_witness:
  "valid_letter ascii_rt (ascii ''Z'')
   \<and> guess ascii_rt cat_game (ascii ''Z'') =
       (None, \<lparr>word = ascii ''cat'', guessed_letters = [ascii ''z''], remaining_guesses = 2,
               game_over = False, won = False\<rparr>)
   \<and> guess ascii_rt (snd (guess ascii_rt cat_game (ascii ''Z''))) (ascii ''Z'') =
       (None, \<lparr>word = ascii ''cat'', guessed_letters = [ascii ''z''], remaining_guesses = 2,
               game_over = False, won = False\<rparr>)"
  using guess_idempotent [of ascii_rt "ascii ''Z''" cat_game]
  by (simp add: cat_game_eq eval_simps)

text \<open>
  C6.  Over any sequence of guesses \<^verbatim>\<open>remaining_guesses\<close> does not increase.  One guess
  takes exactly one from it when the game is not over and the letter is valid, not yet
  guessed and absent from the word, and leaves it as it is in every other case (a letter of
  the word, a repeated letter, a game that is over, an invalid argument).
\<close>

theorem remaining_guesses_non_increasing:
  "remaining_guesses (play rt s letters) \<le> remaining_guesses s
   \<and> remaining_guesses (snd (guess rt s letter)) =
       (if \<not> game_over s \<and> valid_letter rt letter
           \<and> str_lower rt letter \<notin> set (guessed_letters s)
           \<and> \<not> sublist (str_lower rt letter) (word s)
        then remaining_guesses s - 1 else remaining_guesses s)"
  by (simp add: play_remaining_le guess_remaining)

theorem remaining_guesses_non_increasing_witness:
  "remaining_guesses cat_game = 3
   \<and> remaining_guesses (snd (guess ascii_rt cat_game (ascii ''x''))) = 2
   \<and> remaining_guesses (snd (guess ascii_rt cat_game (ascii ''c''))) = 3
   \<and> remaining_guesses (play ascii_rt cat_game [ascii ''x'', ascii ''x'', ascii ''c'']) = 2
   \<and> remaining_guesses (play ascii_rt cat_game [ascii ''x'', ascii ''x'', ascii ''c''])
       \<le> remaining_guesses cat_game"
  using remaining_guesses_non_increasing
    [of ascii_rt cat_game "[ascii ''x'', ascii ''x'', ascii ''c'']" "ascii ''x''"]
  by (simp add: cat_game_eq eval_simps)

text \<open>
  C7.  On a game that is not over, \<^verbatim>\<open>guess\<close> raises the ValueError "Guess must be a single
  letter" exactly when the lowercased argument is not one alphabetic character; it raises
  nothing else, and when it raises the state is as it was before the call.
\<close>

theorem guess_invalid_iff:
  assumes "\<not> game_over s"
  shows "(fst (guess rt s letter) = Some (ValueError ''Guess must be a single letter'')
           \<longleftrightarrow> \<not> valid_letter rt letter)
         \<and> (fst (guess rt s letter) \<noteq> None \<longrightarrow>
              fst (guess rt s letter) = Some (ValueError ''Guess must be a single letter'')
              \<and> snd (guess rt s letter) = s)"
  using assms by (auto simp add: guess_def valid_letter_def Let_def)

theorem guess_invalid_iff_witness:
  "\<not> game_over cat_game \<and> \<not> valid_letter ascii_rt (ascii ''at'')
   \<and> guess ascii_rt cat_game (ascii ''at'') =
       (Some (ValueError ''Guess must be a single letter''), cat_game)
   \<and> guess ascii_rt cat_game (ascii ''7'') =
       (Some (ValueError ''Guess must be a single letter''), cat_game)
   \<and> fst (guess ascii_rt cat_game (ascii ''T'')) = None"
  using guess_invalid_iff [of cat_game ascii_rt "ascii ''at''"]
  by (simp add: cat_game_eq eval_simps prod_eq_iff)

text \<open>
  C8.  The display is the projection of the word, letter by letter, joined by single
  spaces: a letter of the word that is in \<^verbatim>\<open>guessed_letters\<close> shows as itself, any other
  as the placeholder "_".  Without the separators it has as many positions as the word has
  letters (so the display of a non-empty word has \<open>2 * len(word) - 1\<close> characters), and
  dropping from \<^verbatim>\<open>guessed_letters\<close> every entry that is not a letter of the word leaves
  the display as it is.
\<close>

theorem current_state_projection:
  "current_state s =
     join [32] (map (\<lambda>c. [if [c] \<in> set (guessed_letters s) then c else 95]) (word s))
   \<and> positions (current_state s) =
       map (\<lambda>c. if [c] \<in> set (guessed_letters s) then c else 95) (word s)
   \<and> length (positions (current_state s)) = length (word s)
   \<and> length (current_state s) = (if word s = [] then 0 else 2 * length (word s) - 1)
   \<and> current_state (s\<lparr>guessed_letters :=
        filter (\<lambda>g. g \<in> set (map (\<lambda>c. [c]) (word s))) (guessed_letters s)\<rparr>) = current_state s"
  by (intro conjI current_state_frame current_state_tokens)
     (simp_all add: current_state_tokens positions_join length_join)

theorem current_state_projection_witness:
  "current_state (play ascii_rt cat_game [ascii ''a'', ascii ''x'']) = ascii ''_ a _''
   \<and> positions (current_state (play ascii_rt cat_game [ascii ''a'', ascii ''x''])) = ascii ''_a_''
   \<and> current_state ((play ascii_rt cat_game [ascii ''a'', ascii ''x''])
        \<lparr>guessed_letters := [ascii ''a'']\<rparr>) = ascii ''_ a _''"
  using current_state_projection [of "play ascii_rt cat_game [ascii ''a'', ascii ''x'']"]
  by (simp add: cat_game_eq eval_simps)

section \<open>The initialiser\<close>

text \<open>
  C9.  When the task metadata has no word, or has the empty string as its word,
  \<^verbatim>\<open>game_initialiser\<close> raises the RuntimeError "No word provided in metadata" and leaves the
  task state, its store included, as it was: no GameState is created or stored.  With no
  game in the store, the tool and the scorer raise as well.
\<close>

theorem solve_missing_word:
  assumes "md_word (get (task_metadata st) empty_metadata) = None
           \<or> md_word (get (task_metadata st) empty_metadata) = Some []"
  shows "solve rt st = (Some (RuntimeError ''No word provided in metadata''), st)
         \<and> (hangman_game_state (store st) = None \<longrightarrow>
              fst (execute rt (store (snd (solve rt st))) letter) =
                Inl (RuntimeError
                  ''No game in progress. The game must be started by the evaluation setup.'')
              \<and> score rt (snd (solve rt st)) =
                  Inl (RuntimeError ''No game state found in store''))"
  using assms
  by (auto simp add: solve_def execute_def score_def store_get_metadata_def Let_def
      split: option.splits)

theorem solve_missing_word_witness:
  "md_word (get (task_metadata wordless_task) empty_metadata) = Some []
   \<and> solve ascii_rt wordless_task =
       (Some (RuntimeError ''No word provided in metadata''), wordless_task)
   \<and> hangman_game_state (store (snd (solve ascii_rt wordless_task))) = None
   \<and> score ascii_rt (snd (solve ascii_rt wordless_task)) =
       Inl (RuntimeError ''No game state found in store'')"
  using solve_missing_word [of wordless_task ascii_rt "ascii ''a''"]
  by (simp add: wordless_task_def get_def empty_metadata_def solve_def score_def Let_def)

section \<open>Guesses after the end of the game\<close>

text \<open>
  C10.  On a game that is over, \<^verbatim>\<open>guess\<close> raises nothing and returns the state as it is
  for every argument, the empty string, longer strings and non-alphabetic strings included:
  the test of \<^verbatim>\<open>game_over\<close> comes before the validation of the argument.
\<close>

theorem guess_after_game_over_never_raises:
  "game_over s \<Longrightarrow> guess rt s letter = (None, s)"
  by (simp add: guess_def)

theorem guess_after_game_over_never_raises_witness:
  "game_over dog_lost \<and> \<not> valid_letter ascii_rt [] \<and> \<not> valid_letter ascii_rt (ascii ''42'')
   \<and> guess ascii_rt dog_lost [] = (None, dog_lost)
   \<and> guess ascii_rt dog_lost (ascii ''42'') = (None, dog_lost)"
  using guess_after_game_over_never_raises [of dog_lost ascii_rt "[]"]
    guess_after_game_over_never_raises [of dog_lost ascii_rt "ascii ''42''"]
  by (simp add: dog_lost_eq eval_simps)

end
